theory Spec2Isabelle
  imports Main
begin

section \<open>Python values carried by the messages\<close>

text \<open>
  The Socket.IO handlers of \<^verbatim>\<open>app.py\<close> receive a dictionary \<^verbatim>\<open>data\<close> decoded from JSON.
  Its values are modelled by the scalars None, bool, int and str; floats, byte strings,
  lists and nested objects are left out.  A dictionary with string keys is a map;
  \<^verbatim>\<open>d.get(k)\<close> is \<open>d k\<close> and \<^verbatim>\<open>k in d\<close> is \<open>d k \<noteq> None\<close>.  The payload
  \<^verbatim>\<open>data\<close> itself is always a dictionary, the empty one when the client sent nothing.
\<close>

datatype pyval = PNone | PBool bool | PInt int | PStr string

type_synonym pydict = "string \<rightharpoonup> pyval"

type_synonym sid = string

datatype exn = KeyError string | TypeError string | ValueError string

text \<open>Truthiness, as tested by \<^verbatim>\<open>if not audio_data\<close>.\<close>

fun truthy :: "pyval \<Rightarrow> bool" where
  "truthy PNone = False"
| "truthy (PBool b) = b"
| "truthy (PInt n) = (n \<noteq> 0)"
| "truthy (PStr s) = (s \<noteq> [])"

text \<open>\<^verbatim>\<open>len(x)\<close>: defined on strings, a TypeError on the other scalars.\<close>

fun py_len :: "pyval \<Rightarrow> exn + nat" where
  "py_len (PStr s) = Inr (length s)"
| "py_len PNone = Inl (TypeError ''object of type 'NoneType' has no len()'')"
| "py_len (PBool b) = Inl (TypeError ''object of type 'bool' has no len()'')"
| "py_len (PInt n) = Inl (TypeError ''object of type 'int' has no len()'')"

text \<open>Decimal rendering of integers, for \<^verbatim>\<open>str(n)\<close>.\<close>

definition digit_char :: "nat \<Rightarrow> char" where
  "digit_char d = ''0123456789'' ! (d mod 10)"

function nat_digits :: "nat \<Rightarrow> string" where
  "nat_digits n =
     (if n < 10 then [digit_char n] else nat_digits (n div 10) @ [digit_char (n mod 10)])"
  by pat_completeness auto
termination
  by (relation "measure (\<lambda>n. n)") auto

definition int_str :: "int \<Rightarrow> string" where
  "int_str i = (if i < 0 then CHR ''-'' # nat_digits (nat (- i)) else nat_digits (nat i))"

text \<open>\<^verbatim>\<open>str(x)\<close>, also what an f-string substitutes for \<^verbatim>\<open>{x}\<close>.\<close>

fun py_str :: "pyval \<Rightarrow> string" where
  "py_str PNone = ''None''"
| "py_str (PBool b) = (if b then ''True'' else ''False'')"
| "py_str (PInt n) = int_str n"
| "py_str (PStr s) = s"

text \<open>
  \<^verbatim>\<open>int(s)\<close> on a string: an optional sign followed by decimal digits gives the number,
  anything else raises ValueError (\<open>None\<close> here).  The surrounding white space and the
  underscores between digits that Python also accepts are not modelled; every theorem
  below that depends on the parse assumes its result.
\<close>

fun index_of :: "char \<Rightarrow> string \<Rightarrow> nat \<Rightarrow> nat option" where
  "index_of c [] i = None"
| "index_of c (d # ds) i = (if c = d then Some i else index_of c ds (Suc i))"

definition digit_val :: "char \<Rightarrow> nat option" where
  "digit_val c = index_of c ''0123456789'' 0"

fun digits_val :: "nat \<Rightarrow> string \<Rightarrow> nat option" where
  "digits_val acc [] = Some acc"
| "digits_val acc (c # cs) =
     (case digit_val c of None \<Rightarrow> None | Some d \<Rightarrow> digits_val (10 * acc + d) cs)"

definition nat_parse :: "string \<Rightarrow> nat option" where
  "nat_parse cs = (if cs = [] then None else digits_val 0 cs)"

fun py_int :: "string \<Rightarrow> int option" where
  "py_int [] = None"
| "py_int (c # cs) =
     (if c = CHR ''-'' then map_option (\<lambda>n. - int n) (nat_parse cs)
      else if c = CHR ''+'' then map_option int (nat_parse cs)
      else map_option int (nat_parse (c # cs)))"

definition startswith :: "string \<Rightarrow> string \<Rightarrow> bool" where
  "startswith s p = (take (length p) s = p)"

definition dict_get :: "pydict \<Rightarrow> string \<Rightarrow> pyval \<Rightarrow> pyval" where
  "dict_get d k dflt = (case d k of None \<Rightarrow> dflt | Some v \<Rightarrow> v)"

text \<open>\<^verbatim>\<open>str(e)\<close> of a caught exception: a KeyError prints the repr of its key.\<close>

fun exn_str :: "exn \<Rightarrow> string" where
  "exn_str (KeyError k) = CHR 0x27 # k @ [CHR 0x27]"
| "exn_str (TypeError m) = m"
| "exn_str (ValueError m) = m"

section \<open>Hub state\<close>

text \<open>
  An entry of \<^verbatim>\<open>audio_stats\<close> is a dictionary with integer values whose keys are among
  \<^verbatim>\<open>started_at\<close>, \<^verbatim>\<open>chunks_sent\<close>, \<^verbatim>\<open>total_bytes\<close> (written by
  \<^verbatim>\<open>handle_stream_audio\<close>) and \<^verbatim>\<open>chunks\<close> (written by
  \<^verbatim>\<open>handle_stream_audio_pcm\<close>); an absent key is \<open>None\<close>.  Clock readings are integers.
\<close>

record stats =
  started_at :: "int option"
  chunks_sent :: "int option"
  total_bytes :: "int option"
  chunks :: "int option"

text \<open>
  The three module-level dictionaries, the room registry kept by Flask-SocketIO
  (\<^verbatim>\<open>join_room\<close>, \<^verbatim>\<open>leave_room\<close>) and the \<^verbatim>\<open>is_live\<close> column of the Event table,
  keyed by the integer primary key (an absent key: no such record).
\<close>

record hub =
  rooms :: "string \<Rightarrow> sid set"
  active_streams :: "string \<rightharpoonup> pyval"
  audio_stats :: "string \<rightharpoonup> stats"
  audio_headers :: "string \<rightharpoonup> pydict"
  events :: "int \<rightharpoonup> bool"

definition hub0 :: hub where
  "hub0 = \<lparr>rooms = (\<lambda>_. {}), active_streams = Map.empty, audio_stats = Map.empty,
           audio_headers = Map.empty, events = Map.empty\<rparr>"

section \<open>Observable effects\<close>

datatype target = Room string | Sid sid

datatype logline =
    LogJoined string
  | LogSendingHeader string
  | LogLeft string
  | LogStarted string string
  | LogMissingEventId
  | LogEmptyAudio string
  | LogCachingHeader string
  | LogChunks string int string
  | LogStreamError string
  | LogPcmRelay int string
  | LogPcmError exn
  | LogFinalStats string int int
  | LogStopped string

text \<open>
  \<open>Emit name payload target include_self\<close> is a call of \<^verbatim>\<open>emit\<close>; \<open>DbCommit n b\<close> is
  \<^verbatim>\<open>event.is_live = b; db.session.commit()\<close> on record \<open>n\<close>; \<open>Print\<close> is a log line.
  A handler's effects are listed in the order the handler performs them.
\<close>

datatype effect =
    Print logline
  | Emit string pydict target bool
  | DbCommit int bool

datatype outcome = Returned "pydict option" | Raised exn

type_synonym result = "outcome \<times> hub \<times> effect list"

text \<open>
  Modelled from the spec: the delivery of an \<^verbatim>\<open>emit\<close> is done by Flask-SocketIO, which is
  not part of the repository.  As in the spec's \<open>publish(roomId, message, excludeSender)\<close>,
  a message for a room goes to every connection registered in the room, skipping the
  sender when \<^verbatim>\<open>include_self=False\<close>; \<^verbatim>\<open>room=request.sid\<close> addresses one connection.
\<close>

fun recipients :: "hub \<Rightarrow> sid \<Rightarrow> effect \<Rightarrow> sid set" where
  "recipients s sender (Emit name payload (Room r) include_self) =
     (if include_self then rooms s r else rooms s r - {sender})"
| "recipients s sender (Emit name payload (Sid c) include_self) =
     (if include_self then {c} else {c} - {sender})"
| "recipients s sender (Print l) = {}"
| "recipients s sender (DbCommit n b) = {}"

fun is_emit :: "effect \<Rightarrow> bool" where
  "is_emit (Emit name payload t include_self) = True"
| "is_emit (Print l) = False"
| "is_emit (DbCommit n b) = False"

definition emits :: "effect list \<Rightarrow> effect list" where
  "emits es = filter is_emit es"

section \<open>The handlers\<close>

definition join_room :: "sid \<Rightarrow> string \<Rightarrow> hub \<Rightarrow> hub" where
  "join_room c room s = s\<lparr>rooms := (rooms s)(room := insert c (rooms s room))\<rparr>"

definition leave_room :: "sid \<Rightarrow> string \<Rightarrow> hub \<Rightarrow> hub" where
  "leave_room c room s = s\<lparr>rooms := (rooms s)(room := rooms s room - {c})\<rparr>"

definition on_join :: "sid \<Rightarrow> pydict \<Rightarrow> hub \<Rightarrow> result" where
  "on_join c data s =
     (case data ''event_id'' of
        None \<Rightarrow> (Raised (KeyError ''event_id''), s, [])
      | Some ev \<Rightarrow>
          (let event_id = py_str ev; room = event_id; s1 = join_room c room s in
           (Returned None, s1,
            Print (LogJoined room) #
            (case audio_headers s1 event_id of
               None \<Rightarrow> []
             | Some header_data \<Rightarrow>
                 [Print (LogSendingHeader room),
                  Emit ''new_audio'' header_data (Sid c) True]))))"

definition on_leave :: "sid \<Rightarrow> pydict \<Rightarrow> hub \<Rightarrow> result" where
  "on_leave c data s =
     (case data ''event_id'' of
        None \<Rightarrow> (Raised (KeyError ''event_id''), s, [])
      | Some ev \<Rightarrow>
          (let room = py_str ev in
           (Returned None, leave_room c room s, [Print (LogLeft room)])))"

definition del_header :: "string \<Rightarrow> hub \<Rightarrow> hub" where
  "del_header event_id s =
     (if audio_headers s event_id \<noteq> None
      then s\<lparr>audio_headers := (audio_headers s)(event_id := None)\<rparr> else s)"

definition handle_start_stream :: "sid \<Rightarrow> pydict \<Rightarrow> hub \<Rightarrow> result" where
  "handle_start_stream c data s =
     (case data ''event_id'' of
        None \<Rightarrow> (Raised (KeyError ''event_id''), s, [])
      | Some ev \<Rightarrow>
          (let event_id = py_str ev; room = event_id; s1 = del_header event_id s in
           case py_int event_id of
             None \<Rightarrow> (Raised (ValueError event_id), s1, [])
           | Some n \<Rightarrow>
               (case events s1 n of
                  None \<Rightarrow> (Returned None, s1, [])
                | Some live \<Rightarrow>
                    (Returned None, s1\<lparr>events := (events s1)(n \<mapsto> True)\<rparr>,
                     [DbCommit n True, Print (LogStarted event_id room),
                      Emit ''stream_started'' [''event_id'' \<mapsto> PStr event_id]
                        (Room room) True]))))"

definition handle_stream_frame :: "sid \<Rightarrow> pydict \<Rightarrow> hub \<Rightarrow> result" where
  "handle_stream_frame c data s =
     (case data ''event_id'' of
        None \<Rightarrow> (Raised (KeyError ''event_id''), s, [])
      | Some ev \<Rightarrow>
          (let room = py_str ev in
           case data ''image'' of
             None \<Rightarrow> (Raised (KeyError ''image''), s, [])
           | Some img \<Rightarrow>
               (Returned None, s,
                [Emit ''new_frame'' [''image'' \<mapsto> img] (Room room) False])))"

definition error_ack :: "string \<Rightarrow> pydict" where
  "error_ack m = [''status'' \<mapsto> PStr ''error'', ''message'' \<mapsto> PStr m]"

definition success_ack :: pydict where
  "success_ack = [''status'' \<mapsto> PStr ''success'']"

text \<open>The \<^verbatim>\<open>except Exception\<close> branch of \<^verbatim>\<open>handle_stream_audio\<close>.\<close>

definition audio_caught :: "exn \<Rightarrow> hub \<Rightarrow> result" where
  "audio_caught e s =
     (Returned (Some (error_ack (exn_str e))), s, [Print (LogStreamError (exn_str e))])"

text \<open>The data-URI wrapping of a string payload that does not start with \<^verbatim>\<open>data:\<close>.\<close>

fun normalize_audio :: "pyval \<Rightarrow> pyval \<Rightarrow> pyval" where
  "normalize_audio mime_type (PStr a) =
     (if \<not> startswith a ''data:''
      then PStr (''data:'' @ py_str mime_type @ '';base64,'' @ a) else PStr a)"
| "normalize_audio mime_type PNone = PNone"
| "normalize_audio mime_type (PBool b) = PBool b"
| "normalize_audio mime_type (PInt n) = PInt n"

definition new_stats :: "int \<Rightarrow> stats" where
  "new_stats now =
     \<lparr>started_at = Some now, chunks_sent = Some 0, total_bytes = Some 0, chunks = None\<rparr>"

definition set_stats :: "string \<Rightarrow> stats \<Rightarrow> hub \<Rightarrow> hub" where
  "set_stats event_id st s = s\<lparr>audio_stats := (audio_stats s)(event_id \<mapsto> st)\<rparr>"

definition audio_payload :: "int \<Rightarrow> pydict \<Rightarrow> pyval \<Rightarrow> pyval \<Rightarrow> string \<Rightarrow> pydict" where
  "audio_payload now data audio_data mime_type event_id =
     [''audio'' \<mapsto> audio_data, ''mimeType'' \<mapsto> mime_type,
      ''timestamp'' \<mapsto> dict_get data ''timestamp'' (PInt now),
      ''event_id'' \<mapsto> PStr event_id]"

text \<open>
  \<^verbatim>\<open>handle_stream_audio\<close>.  \<open>now\<close> is the reading of \<^verbatim>\<open>datetime.utcnow()\<close>; the
  readings taken within one call are taken to be equal.  Each step that can raise is a
  case of its own, so that the state reached before the exception is the state returned
  by the \<^verbatim>\<open>except\<close> branch.
\<close>

definition handle_stream_audio :: "int \<Rightarrow> sid \<Rightarrow> pydict \<Rightarrow> hub \<Rightarrow> result" where
  "handle_stream_audio now c data s =
     (case data ''event_id'' of
        None \<Rightarrow>
          (Returned (Some (error_ack ''Missing event_id'')), s, [Print LogMissingEventId])
      | Some ev \<Rightarrow>
          (let event_id = py_str ev; room = event_id;
               audio_data = dict_get data ''audio'' PNone in
           if \<not> truthy audio_data
           then (Returned (Some (error_ack ''No audio data'')), s,
                 [Print (LogEmptyAudio event_id)])
           else
             (let mime_type = dict_get data ''mimeType'' (PStr ''audio/webm'');
                  audio_data = normalize_audio mime_type audio_data;
                  st0 = (case audio_stats s event_id of
                           None \<Rightarrow> new_stats now | Some st \<Rightarrow> st);
                  s1 = (if audio_stats s event_id = None
                        then set_stats event_id st0 s else s) in
              case chunks_sent st0 of
                None \<Rightarrow> audio_caught (KeyError ''chunks_sent'') s1
              | Some n \<Rightarrow>
                  (let st1 = st0\<lparr>chunks_sent := Some (n + 1)\<rparr>;
                       s2 = set_stats event_id st1 s1 in
                   case total_bytes st1 of
                     None \<Rightarrow> audio_caught (KeyError ''total_bytes'') s2
                   | Some b \<Rightarrow>
                       (case py_len audio_data of
                          Inl e \<Rightarrow> audio_caught e s2
                        | Inr l \<Rightarrow>
                            (let st2 = st1\<lparr>total_bytes := Some (b + int l)\<rparr>;
                                 s3 = set_stats event_id st2 s2;
                                 payload = audio_payload now data audio_data mime_type
                                             event_id;
                                 first = (n + 1 = 1);
                                 s4 = (if first
                                       then s3\<lparr>audio_headers := (audio_headers s3)
                                              (event_id \<mapsto>
                                                 payload(''is_header'' \<mapsto> PBool True))\<rparr>
                                       else s3);
                                 chunk_count = n + 1 in
                             (Returned (Some success_ack), s4,
                              (if first then [Print (LogCachingHeader event_id)] else []) @
                              (if chunk_count mod 50 = 1
                               then [Print (LogChunks event_id chunk_count room)] else []) @
                              [Emit ''new_audio'' payload (Room room) False])))))))"

text \<open>
  The JSON object returned by \<^verbatim>\<open>/debug/rooms/<event_id>\<close>; the \<^verbatim>\<open>{}\<close> that
  \<^verbatim>\<open>audio_stats.get\<close> defaults to is \<open>None\<close>.  The hub is returned with it, to show that
  the query leaves it alone.
\<close>

record room_info =
  info_room :: string
  info_clients :: "sid list"
  info_audio_stats :: "stats option"
  info_is_streaming :: bool

definition debug_rooms :: "string \<Rightarrow> hub \<Rightarrow> room_info \<times> hub" where
  "debug_rooms event_id s =
     (\<lparr>info_room = event_id, info_clients = [],
       info_audio_stats = audio_stats s event_id,
       info_is_streaming = (active_streams s event_id \<noteq> None)\<rparr>, s)"

definition handle_stream_audio_pcm :: "sid \<Rightarrow> pydict \<Rightarrow> hub \<Rightarrow> result" where
  "handle_stream_audio_pcm c data s =
     (case data ''event_id'' of
        None \<Rightarrow> (Returned None, s, [])
      | Some ev \<Rightarrow>
          (let event_id = py_str ev; room = event_id;
               st0 = (case audio_stats s event_id of
                        None \<Rightarrow> \<lparr>started_at = None, chunks_sent = None,
                                  total_bytes = None, chunks = Some 0\<rparr>
                      | Some st \<Rightarrow> st);
               s1 = (if audio_stats s event_id = None
                     then set_stats event_id st0 s else s) in
           case chunks st0 of
             None \<Rightarrow> (Returned None, s1, [Print (LogPcmError (KeyError ''chunks''))])
           | Some n \<Rightarrow>
               (Returned None, set_stats event_id (st0\<lparr>chunks := Some (n + 1)\<rparr>) s1,
                (if (n + 1) mod 50 = 1 then [Print (LogPcmRelay (n + 1) event_id)] else []) @
                [Emit ''new_audio_pcm'' data (Room room) False])))"

definition handle_stop_stream :: "int \<Rightarrow> sid \<Rightarrow> pydict \<Rightarrow> hub \<Rightarrow> result" where
  "handle_stop_stream now c data s =
     (case data ''event_id'' of
        None \<Rightarrow> (Raised (KeyError ''event_id''), s, [])
      | Some ev \<Rightarrow>
          (let event_id = py_str ev; s1 = del_header event_id s; room = event_id;
               summary = (case audio_stats s1 event_id of
                            None \<Rightarrow> []
                          | Some st \<Rightarrow>
                              [Print (LogFinalStats event_id
                                 (now - (case started_at st of None \<Rightarrow> now | Some t \<Rightarrow> t))
                                 (case chunks_sent st of None \<Rightarrow> 0 | Some k \<Rightarrow> k))]);
               s2 = (if audio_stats s1 event_id \<noteq> None
                     then s1\<lparr>audio_stats := (audio_stats s1)(event_id := None)\<rparr> else s1) in
           case py_int event_id of
             None \<Rightarrow> (Raised (ValueError event_id), s2, summary)
           | Some n \<Rightarrow>
               (case events s2 n of
                  None \<Rightarrow> (Returned None, s2, summary)
                | Some live \<Rightarrow>
                    (Returned None, s2\<lparr>events := (events s2)(n \<mapsto> False)\<rparr>,
                     summary @
                     [DbCommit n False, Print (LogStopped event_id),
                      Emit ''stream_stopped'' [''event_id'' \<mapsto> PStr event_id]
                        (Room room) True]))))"

definition handle_reaction :: "sid \<Rightarrow> pydict \<Rightarrow> hub \<Rightarrow> result" where
  "handle_reaction c data s =
     (case data ''event_id'' of
        None \<Rightarrow> (Raised (KeyError ''event_id''), s, [])
      | Some ev \<Rightarrow>
          (let room = py_str ev in
           case data ''emoji'' of
             None \<Rightarrow> (Raised (KeyError ''emoji''), s, [])
           | Some e \<Rightarrow>
               (Returned None, s,
                [Emit ''new_reaction'' [''emoji'' \<mapsto> e] (Room room) True])))"

section \<open>Sequences of inbound messages\<close>

datatype verb =
    join_event | leave_event | start_stream | stream_frame | stream_audio
  | stream_audio_pcm | stop_stream | send_reaction

text \<open>An inbound message: the clock reading, the sending connection, the verb, the data.\<close>

type_synonym inbound = "int \<times> sid \<times> verb \<times> pydict"

fun dispatch :: "inbound \<Rightarrow> hub \<Rightarrow> result" where
  "dispatch (now, c, join_event, data) s = on_join c data s"
| "dispatch (now, c, leave_event, data) s = on_leave c data s"
| "dispatch (now, c, start_stream, data) s = handle_start_stream c data s"
| "dispatch (now, c, stream_frame, data) s = handle_stream_frame c data s"
| "dispatch (now, c, stream_audio, data) s = handle_stream_audio now c data s"
| "dispatch (now, c, stream_audio_pcm, data) s = handle_stream_audio_pcm c data s"
| "dispatch (now, c, stop_stream, data) s = handle_stop_stream now c data s"
| "dispatch (now, c, send_reaction, data) s = handle_reaction c data s"

text \<open>The hub after a sequence of messages, each handled to completion before the next.\<close>

fun run :: "hub \<Rightarrow> inbound list \<Rightarrow> hub" where
  "run s [] = s"
| "run s (m # ms) = run (fst (snd (dispatch m s))) ms"

section \<open>Concrete messages and states used as test inputs\<close>

definition data7 :: pydict where
  "data7 = [''event_id'' \<mapsto> PInt 7]"

definition chunk7 :: "string \<Rightarrow> pydict" where
  "chunk7 a =
     [''event_id'' \<mapsto> PInt 7, ''audio'' \<mapsto> PStr a, ''mimeType'' \<mapsto> PStr ''audio/webm'']"

text \<open>A hub with no traffic yet, whose Event table holds record 7, not live.\<close>

definition hub7 :: hub where
  "hub7 = hub0\<lparr>events := [7 \<mapsto> False]\<rparr>"

text \<open>Three connections in the room of event 7, and a reaction and a frame for it.\<close>

definition room7 :: hub where
  "room7 = join_room ''C'' ''7'' (join_room ''B'' ''7'' (join_room ''A'' ''7'' hub7))"



text \<open>The hub after B sent one chunk for event 7: with record 7, and without it.\<close>

definition after_chunk7 :: hub where
  "after_chunk7 = fst (snd (handle_stream_audio 100 ''B'' (chunk7 ''AAAA'') hub7))"

definition orphan7 :: hub where
  "orphan7 = fst (snd (handle_stream_audio 100 ''B'' (chunk7 ''AAAA'') hub0))"

text \<open>
  Event 7 restarted after one chunk; a raw PCM chunk as the first traffic of event 7; event 7
  started with A in its room.
\<close>

definition restarted7 :: hub where
  "restarted7 =
     run hub7 [(100, ''B'', stream_audio, chunk7 ''AAAA''), (110, ''B'', start_stream, data7)]"

definition pcm_first7 :: hub where
  "pcm_first7 = fst (snd (handle_stream_audio_pcm ''B'' data7 hub7))"

definition started7 :: hub where
  "started7 = run hub7 [(90, ''A'', join_event, data7), (100, ''B'', start_stream, data7)]"

text \<open>A stop for event \<open>e\<close>; some traffic for event 7 without a stop; shapes of a counters entry.\<close>

definition is_stop_for :: "string \<Rightarrow> inbound \<Rightarrow> bool" where
  "is_stop_for e m =
     (case m of (now, c, v, data) \<Rightarrow>
        v = stop_stream \<and> map_option py_str (data ''event_id'') = Some e)"

definition traffic7 :: "inbound list" where
  "traffic7 =
     [(105, ''A'', join_event, data7), (106, ''B'', start_stream, data7),
      (107, ''B'', stream_audio_pcm, data7), (108, ''B'', stream_audio, chunk7 ''CCCC'')]"

definition lacks_chunks_sent :: "string \<Rightarrow> hub \<Rightarrow> bool" where
  "lacks_chunks_sent e s =
     (case audio_stats s e of None \<Rightarrow> False | Some st \<Rightarrow> chunks_sent st = None)"

definition lacks_chunks :: "string \<Rightarrow> hub \<Rightarrow> bool" where
  "lacks_chunks e s =
     (case audio_stats s e of None \<Rightarrow> False | Some st \<Rightarrow> chunks st = None)"

text \<open>A start or stop for event \<open>e\<close>; a cached header that later chunks cannot replace.\<close>

definition is_start_or_stop_for :: "string \<Rightarrow> inbound \<Rightarrow> bool" where
  "is_start_or_stop_for e m =
     (case m of (now, c, v, data) \<Rightarrow>
        (v = start_stream \<or> v = stop_stream) \<and>
        map_option py_str (data ''event_id'') = Some e)"

definition header_held :: "string \<Rightarrow> pydict \<Rightarrow> hub \<Rightarrow> bool" where
  "header_held e h s =
     (audio_headers s e = Some h \<and>
      (case audio_stats s e of
         None \<Rightarrow> False
       | Some st \<Rightarrow> (case chunks_sent st of None \<Rightarrow> False | Some n \<Rightarrow> 1 \<le> n)))"

text \<open>The string that \<open>normalize_audio\<close> makes of a string payload.\<close>

definition normalized :: "pyval \<Rightarrow> string \<Rightarrow> string" where
  "normalized mime_type a =
     (if startswith a ''data:'' then a else ''data:'' @ py_str mime_type @ '';base64,'' @ a)"

section \<open>Unfolding rules\<close>

lemmas handler_defs =
  on_join_def on_leave_def handle_start_stream_def handle_stream_frame_def
  handle_stream_audio_def handle_stream_audio_pcm_def handle_stop_stream_def
  handle_reaction_def audio_caught_def

lemmas eval_defs =
  handler_defs Let_def dict_get_def new_stats_def set_stats_def startswith_def
  int_str_def digit_char_def audio_payload_def del_header_def join_room_def
  leave_room_def nat_parse_def digit_val_def error_ack_def success_ack_def

section \<open>Header replay on join\<close>

text \<open>
  What the first compressed chunk of an event leaves in the header cache: the payload
  after the data-URI normalisation, under the key \<^verbatim>\<open>audio\<close>.
\<close>

lemma first_chunk_header:
  assumes "data ''event_id'' = Some ev" and "data ''audio'' = Some (PStr a)" and "a \<noteq> []"
    and "audio_stats s (py_str ev) = None"
  shows "\<exists>h. audio_headers (fst (snd (handle_stream_audio now c data s))) (py_str ev) = Some h \<and>
           h ''audio'' =
             Some (normalize_audio (dict_get data ''mimeType'' (PStr ''audio/webm'')) (PStr a))"
  using assms
  by (simp add: handle_stream_audio_def Let_def dict_get_def new_stats_def set_stats_def
      audio_payload_def)

text \<open>
  C2.  A connection \<open>c\<close> that joins the room of event \<open>E = str(event_id)\<close> is registered
  in the room.  If the header cache holds an entry \<open>h\<close> for \<open>E\<close>, the only message the
  join emits is \<^verbatim>\<open>new_audio\<close> with payload \<open>h\<close> (the cached first chunk, normalised when
  it was cached), addressed to \<open>c\<close> alone; so it is the first thing \<open>c\<close> receives as a
  member.  If the cache holds nothing for \<open>E\<close>, the join emits nothing.
\<close>

theorem join_replays_cached_header:
  assumes "data ''event_id'' = Some ev"
  shows "(case audio_headers s (py_str ev) of
            None \<Rightarrow> emits (snd (snd (on_join c data s))) = []
          | Some h \<Rightarrow>
              emits (snd (snd (on_join c data s))) = [Emit ''new_audio'' h (Sid c) True] \<and>
              recipients (fst (snd (on_join c data s))) c
                (Emit ''new_audio'' h (Sid c) True) = {c})
         \<and> c \<in> rooms (fst (snd (on_join c data s))) (py_str ev)
         \<and> fst (on_join c data s) = Returned None"
  using assms
  by (simp add: on_join_def Let_def join_room_def emits_def split: option.splits)

text \<open>
  The scenario of the specification: B sends the chunk \<^verbatim>\<open>AAAA\<close> for event 7, then C joins
  and is sent the cached header; a join on the untouched hub is sent nothing.
\<close>

theorem join_replays_cached_header_witness:
  "data7 ''event_id'' = Some (PInt 7) \<and>
   emits (snd (snd (on_join ''C'' data7
      (fst (snd (handle_stream_audio 100 ''B'' (chunk7 ''AAAA'') hub7)))))) =
     [Emit ''new_audio''
        [''audio'' \<mapsto> PStr ''data:audio/webm;base64,AAAA'',
         ''mimeType'' \<mapsto> PStr ''audio/webm'',
         ''timestamp'' \<mapsto> PInt 100, ''event_id'' \<mapsto> PStr ''7'',
         ''is_header'' \<mapsto> PBool True]
        (Sid ''C'') True] \<and>
   emits (snd (snd (on_join ''C'' data7 hub7))) = []"
  using join_replays_cached_header [where data = data7 and ev = "PInt 7" and c = "''C''"
      and s = "fst (snd (handle_stream_audio 100 ''B'' (chunk7 ''AAAA'') hub7))"]
    join_replays_cached_header [where data = data7 and ev = "PInt 7" and c = "''C''"
      and s = hub7]
  by (simp add: eval_defs emits_def hub0_def hub7_def data7_def chunk7_def)

section \<open>Who receives a relay\<close>










section \<open>Session lifecycle: start and stop\<close>

text \<open>The guarded \<^verbatim>\<open>del audio_headers[event_id]\<close> removes the key, present or not.\<close>

lemma del_header_eq:
  "del_header e s = s\<lparr>audio_headers := (audio_headers s)(e := None)\<rparr>"
  by (cases "audio_headers s e = None") (simp_all add: del_header_def fun_upd_idem)

text \<open>
  C4, as amended.  When the Event store holds a record for \<open>E\<close>, \<^verbatim>\<open>stop_stream\<close> removes
  the header cache entry of \<open>E\<close>.  If a counters entry exists for \<open>E\<close>, it prints a
  summary computed from that entry (the time since \<^verbatim>\<open>started_at\<close> and \<^verbatim>\<open>chunks_sent\<close>, each
  taken as zero when the entry lacks the key) and then removes the entry; without a
  counters entry it prints no summary.  It then sets \<^verbatim>\<open>is_live\<close> of the record to false
  and broadcasts \<^verbatim>\<open>stream_stopped\<close> to room \<open>E\<close>.
\<close>

theorem stop_known_event:
  assumes "data ''event_id'' = Some ev" and "py_int (py_str ev) = Some n"
    and "events s n = Some live"
  shows "handle_stop_stream now c data s =
           (Returned None,
            s\<lparr>audio_headers := (audio_headers s)(py_str ev := None),
              audio_stats := (audio_stats s)(py_str ev := None),
              events := (events s)(n \<mapsto> False)\<rparr>,
            (case audio_stats s (py_str ev) of
               None \<Rightarrow> []
             | Some st \<Rightarrow>
                 [Print (LogFinalStats (py_str ev)
                    (now - (case started_at st of None \<Rightarrow> now | Some t \<Rightarrow> t))
                    (case chunks_sent st of None \<Rightarrow> 0 | Some k \<Rightarrow> k))]) @
            [DbCommit n False, Print (LogStopped (py_str ev)),
             Emit ''stream_stopped'' [''event_id'' \<mapsto> PStr (py_str ev)]
               (Room (py_str ev)) True])"
  using assms
  by (cases "audio_stats s (py_str ev)")
     (simp_all add: handle_stop_stream_def Let_def del_header_eq fun_upd_idem)

text \<open>
  A stop at time 160 after one chunk sent at time 100: one chunk, sixty time units.  A
  stop after one raw PCM chunk: the entry has neither key, and the summary shows zeros.
\<close>

theorem stop_known_event_witness:
  "data7 ''event_id'' = Some (PInt 7) \<and> py_int (py_str (PInt 7)) = Some 7 \<and>
   events after_chunk7 7 = Some False \<and>
   fst (handle_stop_stream 160 ''B'' data7 after_chunk7) = Returned None \<and>
   audio_headers (fst (snd (handle_stop_stream 160 ''B'' data7 after_chunk7))) ''7'' = None \<and>
   audio_stats (fst (snd (handle_stop_stream 160 ''B'' data7 after_chunk7))) ''7'' = None \<and>
   events (fst (snd (handle_stop_stream 160 ''B'' data7 after_chunk7))) 7 = Some False \<and>
   snd (snd (handle_stop_stream 160 ''B'' data7 after_chunk7)) =
     [Print (LogFinalStats ''7'' 60 1), DbCommit 7 False, Print (LogStopped ''7''),
      Emit ''stream_stopped'' [''event_id'' \<mapsto> PStr ''7''] (Room ''7'') True] \<and>
   events pcm_first7 7 = Some False \<and>
   snd (snd (handle_stop_stream 160 ''B'' data7 pcm_first7)) =
     [Print (LogFinalStats ''7'' 0 0), DbCommit 7 False, Print (LogStopped ''7''),
      Emit ''stream_stopped'' [''event_id'' \<mapsto> PStr ''7''] (Room ''7'') True]"
  using stop_known_event [where data = data7 and ev = "PInt 7" and n = 7 and s = after_chunk7
      and live = False and now = 160 and c = "''B''"]
    stop_known_event [where data = data7 and ev = "PInt 7" and n = 7 and s = pcm_first7
      and live = False and now = 160 and c = "''B''"]
  by (simp add: eval_defs hub0_def hub7_def data7_def chunk7_def after_chunk7_def
      pcm_first7_def)

text \<open>
  C4 as stated fails: for the known event 7 without a counters entry, on the untouched hub
  as well as right after a start, \<^verbatim>\<open>stop_stream\<close> prints no summary.
\<close>

theorem stop_without_counters_counterexample:
  "events hub7 7 = Some False \<and>
   audio_stats hub7 ''7'' = None \<and>
   snd (snd (handle_stop_stream 160 ''B'' data7 hub7)) =
     [DbCommit 7 False, Print (LogStopped ''7''),
      Emit ''stream_stopped'' [''event_id'' \<mapsto> PStr ''7''] (Room ''7'') True] \<and>
   snd (snd (handle_stop_stream 160 ''B'' data7
               (fst (snd (handle_start_stream ''B'' data7 hub7))))) =
     [DbCommit 7 False, Print (LogStopped ''7''),
      Emit ''stream_stopped'' [''event_id'' \<mapsto> PStr ''7''] (Room ''7'') True]"
  by (simp add: eval_defs hub0_def hub7_def data7_def)

text \<open>
  C3, as amended.  When the Event store holds a record for \<open>E\<close>, \<^verbatim>\<open>start_stream\<close> leaves
  no header cache entry for \<open>E\<close>, sets \<^verbatim>\<open>is_live\<close> of the record to true and then
  broadcasts \<^verbatim>\<open>stream_started\<close> to room \<open>E\<close>.
\<close>

theorem start_known_event:
  assumes "data ''event_id'' = Some ev" and "py_int (py_str ev) = Some n"
    and "events s n = Some live"
  shows "fst (handle_start_stream c data s) = Returned None \<and>
         audio_headers (fst (snd (handle_start_stream c data s))) (py_str ev) = None \<and>
         events (fst (snd (handle_start_stream c data s))) n = Some True \<and>
         snd (snd (handle_start_stream c data s)) =
           [DbCommit n True, Print (LogStarted (py_str ev) (py_str ev)),
            Emit ''stream_started'' [''event_id'' \<mapsto> PStr (py_str ev)]
              (Room (py_str ev)) True]"
  using assms by (simp add: handle_start_stream_def Let_def del_header_eq)

theorem start_known_event_witness:
  "data7 ''event_id'' = Some (PInt 7) \<and> py_int (py_str (PInt 7)) = Some 7 \<and>
   events after_chunk7 7 = Some False \<and>
   audio_headers after_chunk7 ''7'' \<noteq> None \<and>
   audio_headers (fst (snd (handle_start_stream ''B'' data7 after_chunk7))) ''7'' = None \<and>
   events (fst (snd (handle_start_stream ''B'' data7 after_chunk7))) 7 = Some True \<and>
   snd (snd (handle_start_stream ''B'' data7 after_chunk7)) =
     [DbCommit 7 True, Print (LogStarted ''7'' ''7''),
      Emit ''stream_started'' [''event_id'' \<mapsto> PStr ''7''] (Room ''7'') True]"
  using start_known_event [where data = data7 and ev = "PInt 7" and n = 7 and s = after_chunk7
      and live = False and c = "''B''"]
  by (simp add: eval_defs hub0_def hub7_def data7_def chunk7_def after_chunk7_def)

text \<open>
  C3 as stated fails: after one chunk for the known event 7, \<^verbatim>\<open>start_stream\<close> leaves the
  counters entry as it was; and for an event without a record it neither sets a flag nor
  broadcasts.
\<close>

theorem start_keeps_counters_counterexample:
  "events after_chunk7 7 = Some False \<and>
   audio_stats after_chunk7 ''7'' =
     Some \<lparr>started_at = Some 100, chunks_sent = Some 1, total_bytes = Some 27, chunks = None\<rparr> \<and>
   audio_stats (fst (snd (handle_start_stream ''B'' data7 after_chunk7))) ''7'' =
     Some \<lparr>started_at = Some 100, chunks_sent = Some 1, total_bytes = Some 27, chunks = None\<rparr> \<and>
   events hub0 7 = None \<and>
   handle_start_stream ''B'' data7 hub0 = (Returned None, hub0, [])"
  by (simp add: eval_defs hub0_def hub7_def data7_def chunk7_def after_chunk7_def)

text \<open>
  C8, as amended.  When \<open>E\<close> is an integer in decimal form (\<^verbatim>\<open>int(E)\<close> succeeds) and the
  Event store holds no record for it, \<^verbatim>\<open>start_stream\<close> and \<^verbatim>\<open>stop_stream\<close> return
  normally, write nothing to the store and broadcast nothing.  Both still remove the
  header cache entry of \<open>E\<close>; \<^verbatim>\<open>stop_stream\<close> also removes the counters entry of \<open>E\<close> and
  prints its summary when there was one.  Nothing else of the hub changes, and
  \<^verbatim>\<open>start_stream\<close> prints nothing.
\<close>

theorem unknown_event_start_stop:
  assumes "data ''event_id'' = Some ev" and "py_int (py_str ev) = Some n"
    and "events s n = None"
  shows "handle_start_stream c data s =
           (Returned None, s\<lparr>audio_headers := (audio_headers s)(py_str ev := None)\<rparr>, []) \<and>
         handle_stop_stream now c data s =
           (Returned None,
            s\<lparr>audio_headers := (audio_headers s)(py_str ev := None),
              audio_stats := (audio_stats s)(py_str ev := None)\<rparr>,
            (case audio_stats s (py_str ev) of
               None \<Rightarrow> []
             | Some st \<Rightarrow>
                 [Print (LogFinalStats (py_str ev)
                    (now - (case started_at st of None \<Rightarrow> now | Some t \<Rightarrow> t))
                    (case chunks_sent st of None \<Rightarrow> 0 | Some k \<Rightarrow> k))]))"
  using assms
  by (cases "audio_stats s (py_str ev)")
     (simp_all add: handle_start_stream_def handle_stop_stream_def Let_def del_header_eq
        fun_upd_idem)

theorem unknown_event_start_stop_witness:
  "data7 ''event_id'' = Some (PInt 7) \<and> py_int (py_str (PInt 7)) = Some 7 \<and>
   events orphan7 7 = None \<and>
   fst (handle_start_stream ''B'' data7 orphan7) = Returned None \<and>
   snd (snd (handle_start_stream ''B'' data7 orphan7)) = [] \<and>
   fst (handle_stop_stream 160 ''B'' data7 orphan7) = Returned None \<and>
   snd (snd (handle_stop_stream 160 ''B'' data7 orphan7)) = [Print (LogFinalStats ''7'' 60 1)]"
  using unknown_event_start_stop [where data = data7 and ev = "PInt 7" and n = 7
      and s = orphan7 and now = 160 and c = "''B''"]
  by (simp add: eval_defs hub0_def data7_def chunk7_def orphan7_def)

text \<open>
  C8 as stated fails: a chunk relayed for an event without a record leaves a header and
  counters, which \<^verbatim>\<open>start_stream\<close> and \<^verbatim>\<open>stop_stream\<close> then remove; \<^verbatim>\<open>start_stream\<close>
  prints no log line; and for the id \<^verbatim>\<open>abc\<close>, which has no record either, both handlers
  raise the ValueError of \<^verbatim>\<open>int\<close>.
\<close>

theorem unknown_event_not_noop_counterexample:
  "events orphan7 7 = None \<and>
   audio_headers orphan7 ''7'' \<noteq> None \<and>
   audio_headers (fst (snd (handle_start_stream ''B'' data7 orphan7))) ''7'' = None \<and>
   snd (snd (handle_start_stream ''B'' data7 orphan7)) = [] \<and>
   audio_stats orphan7 ''7'' \<noteq> None \<and>
   audio_stats (fst (snd (handle_stop_stream 160 ''B'' data7 orphan7))) ''7'' = None \<and>
   handle_start_stream ''B'' [''event_id'' \<mapsto> PStr ''abc''] orphan7 =
     (Raised (ValueError ''abc''), orphan7, []) \<and>
   handle_stop_stream 160 ''B'' [''event_id'' \<mapsto> PStr ''abc''] orphan7 =
     (Raised (ValueError ''abc''), orphan7, [])"
  by (simp add: eval_defs hub0_def data7_def chunk7_def orphan7_def index_of.simps)

section \<open>Messages with a missing field\<close>

text \<open>
  C7, as amended.  A compressed audio chunk without its event id or without a (truthy)
  audio payload is answered with an error acknowledgement to the sender; nothing is
  emitted and the hub is unchanged.  For every other handler, a message without its event
  id, a frame without its image and a reaction without its emoji emit nothing and leave
  the hub unchanged; a raw PCM message without its event id is given no answer at all.
  A raw PCM message that has its event id is never rejected for what else it lacks: on a
  counters entry that is absent or holds \<^verbatim>\<open>chunks\<close> it is counted and relayed as it is.
\<close>

theorem missing_fields:
  "(data ''event_id'' = None \<longrightarrow>
      handle_stream_audio now c data s =
        (Returned (Some (error_ack ''Missing event_id'')), s, [Print LogMissingEventId]) \<and>
      handle_stream_audio_pcm c data s = (Returned None, s, []) \<and>
      snd (on_join c data s) = (s, []) \<and>
      snd (on_leave c data s) = (s, []) \<and>
      snd (handle_start_stream c data s) = (s, []) \<and>
      snd (handle_stop_stream now c data s) = (s, []) \<and>
      snd (handle_stream_frame c data s) = (s, []) \<and>
      snd (handle_reaction c data s) = (s, [])) \<and>
   (\<forall>ev. data ''event_id'' = Some ev \<longrightarrow>
      (\<not> truthy (dict_get data ''audio'' PNone) \<longrightarrow>
         handle_stream_audio now c data s =
           (Returned (Some (error_ack ''No audio data'')), s,
            [Print (LogEmptyAudio (py_str ev))])) \<and>
      (data ''image'' = None \<longrightarrow> snd (handle_stream_frame c data s) = (s, [])) \<and>
      (data ''emoji'' = None \<longrightarrow> snd (handle_reaction c data s) = (s, [])) \<and>
      (\<forall>n. audio_stats s (py_str ev) = None \<and> n = 0 \<or>
            (\<exists>st. audio_stats s (py_str ev) = Some st \<and> chunks st = Some n) \<longrightarrow>
         emits (snd (snd (handle_stream_audio_pcm c data s))) =
           [Emit ''new_audio_pcm'' data (Room (py_str ev)) False] \<and>
         map_option chunks
           (audio_stats (fst (snd (handle_stream_audio_pcm c data s))) (py_str ev)) =
           Some (Some (n + 1))))"
  by (auto simp add: handler_defs Let_def emits_def set_stats_def)

theorem missing_fields_witness:
  "Map.empty ''event_id'' = (None :: pyval option) \<and>
   handle_stream_audio 100 ''B'' Map.empty room7 =
     (Returned (Some (error_ack ''Missing event_id'')), room7, [Print LogMissingEventId]) \<and>
   handle_stream_audio_pcm ''B'' Map.empty room7 = (Returned None, room7, []) \<and>
   snd (handle_start_stream ''B'' Map.empty room7) = (room7, []) \<and>
   data7 ''event_id'' = Some (PInt 7) \<and> \<not> truthy (dict_get data7 ''audio'' PNone) \<and>
   handle_stream_audio 100 ''B'' data7 room7 =
     (Returned (Some (error_ack ''No audio data'')), room7, [Print (LogEmptyAudio ''7'')]) \<and>
   snd (handle_stream_frame ''B'' data7 room7) = (room7, []) \<and>
   snd (handle_reaction ''B'' data7 room7) = (room7, []) \<and>
   audio_stats room7 ''7'' = None \<and>
   emits (snd (snd (handle_stream_audio_pcm ''B'' data7 room7))) =
     [Emit ''new_audio_pcm'' data7 (Room ''7'') False] \<and>
   map_option chunks (audio_stats (fst (snd (handle_stream_audio_pcm ''B'' data7 room7))) ''7'') =
     Some (Some 1)"
  using missing_fields [where data = Map.empty and now = 100 and c = "''B''" and s = room7]
    missing_fields [where data = data7 and now = 100 and c = "''B''" and s = room7]
  by (simp add: data7_def dict_get_def int_str_def digit_char_def room7_def hub7_def hub0_def
      join_room_def)

text \<open>
  C7 as stated fails: a raw PCM message without an event id gets no error response; a raw
  PCM message with nothing but its event id is counted and broadcast; and a start without
  an event id or a frame without an image gets no structured error.
\<close>

theorem no_structured_error_counterexample:
  "handle_stream_audio_pcm ''B'' Map.empty room7 = (Returned None, room7, []) \<and>
   emits (snd (snd (handle_stream_audio_pcm ''B'' data7 room7))) =
     [Emit ''new_audio_pcm'' data7 (Room ''7'') False] \<and>
   audio_stats room7 ''7'' = None \<and>
   audio_stats (fst (snd (handle_stream_audio_pcm ''B'' data7 room7))) ''7'' =
     Some \<lparr>started_at = None, chunks_sent = None, total_bytes = None, chunks = Some 1\<rparr> \<and>
   handle_start_stream ''B'' Map.empty room7 = (Raised (KeyError ''event_id''), room7, []) \<and>
   handle_stream_frame ''B'' data7 room7 = (Raised (KeyError ''image''), room7, [])"
  by (simp add: eval_defs emits_def data7_def room7_def hub7_def hub0_def)

section \<open>Defects found at concrete inputs\<close>

text \<open>
  C1.  The header is cached when \<^verbatim>\<open>chunks_sent\<close> reaches 1, but \<^verbatim>\<open>start_stream\<close> clears
  the header without resetting the counters.  After a chunk and a restart of event 7, the
  next chunk is relayed with a success acknowledgement, yet the header cache stays empty
  and a connection that joins afterwards is sent no header.
\<close>

theorem restart_chunk_not_cached:
  "events restarted7 7 = Some True \<and>
   audio_headers restarted7 ''7'' = None \<and>
   fst (handle_stream_audio 120 ''B'' (chunk7 ''BBBB'') restarted7) = Returned (Some success_ack) \<and>
   emits (snd (snd (handle_stream_audio 120 ''B'' (chunk7 ''BBBB'') restarted7))) =
     [Emit ''new_audio''
        [''audio'' \<mapsto> PStr ''data:audio/webm;base64,BBBB'',
         ''mimeType'' \<mapsto> PStr ''audio/webm'',
         ''timestamp'' \<mapsto> PInt 120, ''event_id'' \<mapsto> PStr ''7'']
        (Room ''7'') False] \<and>
   audio_headers (fst (snd (handle_stream_audio 120 ''B'' (chunk7 ''BBBB'') restarted7))) ''7'' = None \<and>
   emits (snd (snd (on_join ''C'' data7
      (fst (snd (handle_stream_audio 120 ''B'' (chunk7 ''BBBB'') restarted7)))))) = []"
  by (simp add: eval_defs emits_def hub0_def hub7_def data7_def chunk7_def restarted7_def)

text \<open>
  C5.  \<^verbatim>\<open>handle_stream_audio_pcm\<close> creates the counters entry with the key \<^verbatim>\<open>chunks\<close>
  only.  A well-formed compressed chunk that follows is not counted and not relayed: the
  read of \<^verbatim>\<open>chunks_sent\<close> raises KeyError, and the sender gets an error acknowledgement.
\<close>

theorem pcm_then_compressed_chunk_rejected:
  "audio_stats pcm_first7 ''7'' =
     Some \<lparr>started_at = None, chunks_sent = None, total_bytes = None, chunks = Some 1\<rparr> \<and>
   handle_stream_audio 100 ''B'' (chunk7 ''AAAA'') pcm_first7 =
     (Returned (Some (error_ack (exn_str (KeyError ''chunks_sent'')))), pcm_first7,
      [Print (LogStreamError (exn_str (KeyError ''chunks_sent'')))])"
  by (simp add: eval_defs hub0_def hub7_def data7_def chunk7_def pcm_first7_def)

text \<open>
  C9.  No handler ever writes \<^verbatim>\<open>active_streams\<close>, and \<^verbatim>\<open>clients\<close> is the constant empty
  list: with A in the room and event 7 started (its \<^verbatim>\<open>is_live\<close> flag true), the
  diagnostic query still reports no client and \<^verbatim>\<open>is_streaming\<close> false.  The hub is
  returned as it was.
\<close>

theorem debug_rooms_never_live:
  "events started7 7 = Some True \<and>
   rooms started7 ''7'' = {''A''} \<and>
   debug_rooms ''7'' started7 =
     (\<lparr>info_room = ''7'', info_clients = [], info_audio_stats = None,
       info_is_streaming = False\<rparr>, started7)"
  by (simp add: eval_defs hub0_def hub7_def data7_def started7_def debug_rooms_def)

section \<open>The two audio handlers share one counters entry\<close>

text \<open>
  Only \<^verbatim>\<open>handle_stream_audio\<close>, \<^verbatim>\<open>handle_stream_audio_pcm\<close> and \<^verbatim>\<open>handle_stop_stream\<close>
  write \<^verbatim>\<open>audio_stats\<close>.  A counters entry without \<^verbatim>\<open>chunks_sent\<close> (resp. without
  \<^verbatim>\<open>chunks\<close>) keeps that shape under every message except a stop for its event.
\<close>

lemma audio_stats_on_join: "audio_stats (fst (snd (on_join c data s))) = audio_stats s"
  by (simp add: on_join_def Let_def join_room_def split: option.splits)

lemma audio_stats_on_leave: "audio_stats (fst (snd (on_leave c data s))) = audio_stats s"
  by (simp add: on_leave_def Let_def leave_room_def split: option.splits)

lemma audio_stats_start:
  "audio_stats (fst (snd (handle_start_stream c data s))) = audio_stats s"
  by (simp add: handle_start_stream_def Let_def del_header_eq split: option.splits)

lemma audio_stats_frame:
  "audio_stats (fst (snd (handle_stream_frame c data s))) = audio_stats s"
  by (simp add: handle_stream_frame_def Let_def split: option.splits)

lemma audio_stats_reaction:
  "audio_stats (fst (snd (handle_reaction c data s))) = audio_stats s"
  by (simp add: handle_reaction_def Let_def split: option.splits)

lemma audio_stats_stop_other:
  assumes "map_option py_str (data ''event_id'') \<noteq> Some e"
  shows "audio_stats (fst (snd (handle_stop_stream now c data s))) e = audio_stats s e"
  using assms
  by (auto simp add: handle_stop_stream_def Let_def del_header_eq split: option.splits)

lemma audio_keeps_lacks_chunks_sent:
  assumes "lacks_chunks_sent e s"
  shows "lacks_chunks_sent e (fst (snd (handle_stream_audio now c data s)))"
proof (cases "map_option py_str (data ''event_id'') = Some e")
  case True
  with assms show ?thesis
    by (auto simp add: lacks_chunks_sent_def handle_stream_audio_def audio_caught_def Let_def
        split: option.splits)
next
  case False
  with assms show ?thesis
    by (auto simp add: lacks_chunks_sent_def handle_stream_audio_def audio_caught_def Let_def
        set_stats_def split: option.splits sum.splits)
qed

lemma pcm_keeps_lacks_chunks_sent:
  assumes "lacks_chunks_sent e s"
  shows "lacks_chunks_sent e (fst (snd (handle_stream_audio_pcm c data s)))"
  using assms
  by (auto simp add: lacks_chunks_sent_def handle_stream_audio_pcm_def Let_def set_stats_def
      split: option.splits)

lemma audio_keeps_lacks_chunks:
  assumes "lacks_chunks e s"
  shows "lacks_chunks e (fst (snd (handle_stream_audio now c data s)))"
  using assms
  by (auto simp add: lacks_chunks_def handle_stream_audio_def audio_caught_def Let_def
      set_stats_def split: option.splits sum.splits)

lemma pcm_keeps_lacks_chunks:
  assumes "lacks_chunks e s"
  shows "lacks_chunks e (fst (snd (handle_stream_audio_pcm c data s)))"
proof (cases "map_option py_str (data ''event_id'') = Some e")
  case True
  with assms show ?thesis
    by (auto simp add: lacks_chunks_def handle_stream_audio_pcm_def Let_def
        split: option.splits)
next
  case False
  with assms show ?thesis
    by (auto simp add: lacks_chunks_def handle_stream_audio_pcm_def Let_def set_stats_def
        split: option.splits)
qed

lemma dispatch_keeps_lacks_chunks_sent:
  assumes "lacks_chunks_sent e s" and "\<not> is_stop_for e m"
  shows "lacks_chunks_sent e (fst (snd (dispatch m s)))"
proof -
  obtain now c v data where m: "m = (now, c, v, data)" by (cases m) auto
  show ?thesis
  proof (cases v)
    case stream_audio
    with m assms show ?thesis by (simp add: audio_keeps_lacks_chunks_sent)
  next
    case stream_audio_pcm
    with m assms show ?thesis by (simp add: pcm_keeps_lacks_chunks_sent)
  next
    case stop_stream
    with m assms show ?thesis
      by (simp add: lacks_chunks_sent_def is_stop_for_def audio_stats_stop_other)
  qed (use m assms in \<open>simp_all add: lacks_chunks_sent_def audio_stats_on_join
        audio_stats_on_leave audio_stats_start audio_stats_frame audio_stats_reaction\<close>)
qed

lemma dispatch_keeps_lacks_chunks:
  assumes "lacks_chunks e s" and "\<not> is_stop_for e m"
  shows "lacks_chunks e (fst (snd (dispatch m s)))"
proof -
  obtain now c v data where m: "m = (now, c, v, data)" by (cases m) auto
  show ?thesis
  proof (cases v)
    case stream_audio
    with m assms show ?thesis by (simp add: audio_keeps_lacks_chunks)
  next
    case stream_audio_pcm
    with m assms show ?thesis by (simp add: pcm_keeps_lacks_chunks)
  next
    case stop_stream
    with m assms show ?thesis
      by (simp add: lacks_chunks_def is_stop_for_def audio_stats_stop_other)
  qed (use m assms in \<open>simp_all add: lacks_chunks_def audio_stats_on_join
        audio_stats_on_leave audio_stats_start audio_stats_frame audio_stats_reaction\<close>)
qed

lemma run_keeps_lacks_chunks_sent:
  assumes "lacks_chunks_sent e s" and "\<forall>m \<in> set ms. \<not> is_stop_for e m"
  shows "lacks_chunks_sent e (run s ms)"
  using assms
  by (induction ms arbitrary: s) (simp_all add: dispatch_keeps_lacks_chunks_sent)

lemma run_keeps_lacks_chunks:
  assumes "lacks_chunks e s" and "\<forall>m \<in> set ms. \<not> is_stop_for e m"
  shows "lacks_chunks e (run s ms)"
  using assms
  by (induction ms arbitrary: s) (simp_all add: dispatch_keeps_lacks_chunks)

lemma pcm_creates_chunks_only:
  assumes "data ''event_id'' = Some ev" and "audio_stats s (py_str ev) = None"
  shows "audio_stats (fst (snd (handle_stream_audio_pcm c data s))) (py_str ev) =
           Some \<lparr>started_at = None, chunks_sent = None, total_bytes = None, chunks = Some 1\<rparr>"
  using assms by (simp add: handle_stream_audio_pcm_def Let_def set_stats_def)

lemma audio_fails_without_chunks_sent:
  assumes "lacks_chunks_sent (py_str ev) s" and "data ''event_id'' = Some ev"
    and "truthy (dict_get data ''audio'' PNone)"
  shows "handle_stream_audio now c data s =
           (Returned (Some (error_ack (exn_str (KeyError ''chunks_sent'')))), s,
            [Print (LogStreamError (exn_str (KeyError ''chunks_sent'')))])"
  using assms
  by (auto simp add: lacks_chunks_sent_def handle_stream_audio_def audio_caught_def Let_def
      split: option.splits)

lemma audio_creates_without_chunks:
  assumes "data ''event_id'' = Some ev" and "audio_stats s (py_str ev) = None"
    and "truthy (dict_get data ''audio'' PNone)"
  shows "lacks_chunks (py_str ev) (fst (snd (handle_stream_audio now c data s)))"
  using assms
  by (auto simp add: lacks_chunks_def handle_stream_audio_def audio_caught_def Let_def
      set_stats_def new_stats_def split: option.splits sum.splits)

lemma pcm_fails_without_chunks:
  assumes "lacks_chunks (py_str ev) s" and "data ''event_id'' = Some ev"
  shows "handle_stream_audio_pcm c data s =
           (Returned None, s, [Print (LogPcmError (KeyError ''chunks''))])"
  using assms
  by (auto simp add: lacks_chunks_def handle_stream_audio_pcm_def Let_def
      split: option.splits)

text \<open>
  C10, as amended.  A raw PCM chunk for an event \<open>E\<close> without a counters entry creates
  the entry \<^verbatim>\<open>{'chunks': 1}\<close>.  From then on, through any traffic that contains no stop
  for \<open>E\<close>, a compressed chunk for \<open>E\<close> with a payload fails on the missing key
  \<^verbatim>\<open>chunks_sent\<close>: the sender gets an error acknowledgement, nothing is emitted, and the
  hub (so also the header cache) is unchanged.  Symmetrically, once a compressed chunk has
  created the entry, a raw PCM chunk for \<open>E\<close> fails on the missing key \<^verbatim>\<open>chunks\<close>: an
  error line is printed, nothing is emitted or answered, and the hub is unchanged; again
  through any traffic without a stop for \<open>E\<close>.
\<close>

theorem stats_key_clash:
  assumes "pcm ''event_id'' = Some ev" and "chunk ''event_id'' = Some ev'"
    and "py_str ev' = py_str ev" and "truthy (dict_get chunk ''audio'' PNone)"
    and "audio_stats s (py_str ev) = None"
    and "\<forall>m \<in> set ms. \<not> is_stop_for (py_str ev) m"
  shows "audio_stats (fst (snd (handle_stream_audio_pcm c pcm s))) (py_str ev) =
           Some \<lparr>started_at = None, chunks_sent = None, total_bytes = None, chunks = Some 1\<rparr> \<and>
         handle_stream_audio now c' chunk (run (fst (snd (handle_stream_audio_pcm c pcm s))) ms) =
           (Returned (Some (error_ack (exn_str (KeyError ''chunks_sent'')))),
            run (fst (snd (handle_stream_audio_pcm c pcm s))) ms,
            [Print (LogStreamError (exn_str (KeyError ''chunks_sent'')))]) \<and>
         handle_stream_audio_pcm c' pcm (run (fst (snd (handle_stream_audio now c chunk s))) ms) =
           (Returned None, run (fst (snd (handle_stream_audio now c chunk s))) ms,
            [Print (LogPcmError (KeyError ''chunks''))])"
proof (intro conjI)
  let ?e = "py_str ev"
  let ?p = "fst (snd (handle_stream_audio_pcm c pcm s))"
  let ?a = "fst (snd (handle_stream_audio now c chunk s))"
  show created: "audio_stats ?p ?e =
      Some \<lparr>started_at = None, chunks_sent = None, total_bytes = None, chunks = Some 1\<rparr>"
    using assms(1,5) by (rule pcm_creates_chunks_only)
  have "lacks_chunks_sent ?e ?p"
    using created by (simp add: lacks_chunks_sent_def)
  then have "lacks_chunks_sent (py_str ev') (run ?p ms)"
    using assms(3,6) by (simp add: run_keeps_lacks_chunks_sent)
  then show "handle_stream_audio now c' chunk (run ?p ms) =
      (Returned (Some (error_ack (exn_str (KeyError ''chunks_sent'')))), run ?p ms,
       [Print (LogStreamError (exn_str (KeyError ''chunks_sent'')))])"
    using assms(2,4) by (rule audio_fails_without_chunks_sent)
  from assms(3,5) have none': "audio_stats s (py_str ev') = None"
    by simp
  have "lacks_chunks (py_str ev') ?a"
    by (rule audio_creates_without_chunks [OF assms(2) none' assms(4)])
  then have "lacks_chunks ?e (run ?a ms)"
    using assms(3,6) by (simp add: run_keeps_lacks_chunks)
  then show "handle_stream_audio_pcm c' pcm (run ?a ms) =
      (Returned None, run ?a ms, [Print (LogPcmError (KeyError ''chunks''))])"
    using assms(1) by (rule pcm_fails_without_chunks)
qed

theorem stats_key_clash_witness:
  "data7 ''event_id'' = Some (PInt 7) \<and> chunk7 ''AAAA'' ''event_id'' = Some (PInt 7) \<and>
   truthy (dict_get (chunk7 ''AAAA'') ''audio'' PNone) \<and>
   audio_stats hub7 ''7'' = None \<and>
   list_all (\<lambda>m. \<not> is_stop_for ''7'' m) traffic7 \<and>
   fst (handle_stream_audio 120 ''B'' (chunk7 ''AAAA'') (run pcm_first7 traffic7)) =
     Returned (Some (error_ack (exn_str (KeyError ''chunks_sent'')))) \<and>
   emits (snd (snd (handle_stream_audio 120 ''B'' (chunk7 ''AAAA'') (run pcm_first7 traffic7)))) = [] \<and>
   fst (handle_stream_audio_pcm ''B'' data7 (run after_chunk7 traffic7)) = Returned None \<and>
   emits (snd (snd (handle_stream_audio_pcm ''B'' data7 (run after_chunk7 traffic7)))) = []"
  using stats_key_clash [where pcm = data7 and chunk = "chunk7 ''AAAA''" and ev = "PInt 7"
      and ev' = "PInt 7" and s = hub7 and ms = traffic7 and c = "''B''" and c' = "''B''"
      and now = 100]
    stats_key_clash [where pcm = data7 and chunk = "chunk7 ''AAAA''" and ev = "PInt 7"
      and ev' = "PInt 7" and s = hub7 and ms = traffic7 and c = "''B''" and c' = "''B''"
      and now = 120]
  by (simp add: eval_defs emits_def hub0_def hub7_def data7_def chunk7_def pcm_first7_def
        after_chunk7_def traffic7_def is_stop_for_def)

text \<open>
  C10 as stated fails: a stop for the event deletes the PCM-shaped entry, and the next
  compressed chunk is counted, cached as header and relayed.
\<close>

theorem stop_ends_clash_counterexample:
  "audio_stats pcm_first7 ''7'' =
     Some \<lparr>started_at = None, chunks_sent = None, total_bytes = None, chunks = Some 1\<rparr> \<and>
   fst (handle_stream_audio 120 ''B'' (chunk7 ''AAAA'')
          (run pcm_first7 [(110, ''B'', stop_stream, data7)])) = Returned (Some success_ack) \<and>
   emits (snd (snd (handle_stream_audio 120 ''B'' (chunk7 ''AAAA'')
          (run pcm_first7 [(110, ''B'', stop_stream, data7)])))) =
     [Emit ''new_audio''
        [''audio'' \<mapsto> PStr ''data:audio/webm;base64,AAAA'',
         ''mimeType'' \<mapsto> PStr ''audio/webm'',
         ''timestamp'' \<mapsto> PInt 120, ''event_id'' \<mapsto> PStr ''7'']
        (Room ''7'') False] \<and>
   audio_headers (fst (snd (handle_stream_audio 120 ''B'' (chunk7 ''AAAA'')
          (run pcm_first7 [(110, ''B'', stop_stream, data7)])))) ''7'' \<noteq> None"
  by (simp add: eval_defs emits_def hub0_def hub7_def data7_def chunk7_def pcm_first7_def)

section \<open>Further properties of the hub\<close>

text \<open>
  No handler writes \<^verbatim>\<open>active_streams\<close>.  So, whatever the traffic since the process
  started, the diagnostic query reports \<^verbatim>\<open>is_streaming\<close> false and an empty client list;
  it returns the hub as it was.
\<close>

lemma active_streams_dispatch:
  "active_streams (fst (snd (dispatch m s))) = active_streams s"
proof -
  obtain now c v data where m: "m = (now, c, v, data)" by (cases m) auto
  show ?thesis
    unfolding m
    by (cases v)
       (simp_all add: handler_defs Let_def join_room_def leave_room_def del_header_def
          set_stats_def split: option.splits sum.splits)
qed

lemma active_streams_never_written:
  "active_streams (run s ms) = active_streams s \<and>
   info_is_streaming (fst (debug_rooms e (run hub0 ms))) = False \<and>
   info_clients (fst (debug_rooms e (run s ms))) = [] \<and>
   snd (debug_rooms e s) = s"
proof -
  have run: "active_streams (run s ms) = active_streams s" for s
    by (induction ms arbitrary: s) (simp_all add: active_streams_dispatch)
  show ?thesis
    using run [of s] run [of hub0] by (simp add: debug_rooms_def hub0_def)
qed

text \<open>
  A compressed chunk with a non-empty string payload, for an event whose counters entry is
  absent or holds \<^verbatim>\<open>chunks_sent = n\<close> and \<^verbatim>\<open>total_bytes = b\<close>: the payload is normalised,
  the counters become \<open>n + 1\<close> and \<open>b\<close> plus the length of the normalised payload, the chunk
  is emitted once to the room without the sender, and the sender gets the success
  acknowledgement.
\<close>

lemma audio_chunk_counted_and_relayed:
  assumes "data ''event_id'' = Some ev" and "data ''audio'' = Some (PStr a)" and "a \<noteq> []"
    and "audio_stats s (py_str ev) = None \<and> n = 0 \<and> b = 0 \<or>
         (\<exists>st. audio_stats s (py_str ev) = Some st \<and> chunks_sent st = Some n \<and>
               total_bytes st = Some b)"
  shows "fst (handle_stream_audio now c data s) = Returned (Some success_ack) \<and>
         emits (snd (snd (handle_stream_audio now c data s))) =
           [Emit ''new_audio''
              [''audio'' \<mapsto> PStr (normalized (dict_get data ''mimeType'' (PStr ''audio/webm'')) a),
               ''mimeType'' \<mapsto> dict_get data ''mimeType'' (PStr ''audio/webm''),
               ''timestamp'' \<mapsto> dict_get data ''timestamp'' (PInt now),
               ''event_id'' \<mapsto> PStr (py_str ev)]
              (Room (py_str ev)) False] \<and>
         map_option chunks_sent (audio_stats (fst (snd (handle_stream_audio now c data s))) (py_str ev)) =
           Some (Some (n + 1)) \<and>
         map_option total_bytes (audio_stats (fst (snd (handle_stream_audio now c data s))) (py_str ev)) =
           Some (Some (b + int (length (normalized (dict_get data ''mimeType'' (PStr ''audio/webm'')) a))))"
  using assms
  by (auto simp add: handle_stream_audio_def Let_def dict_get_def new_stats_def set_stats_def
      audio_payload_def emits_def normalized_def)

text \<open>
  Once the first chunk of an event is cached with \<^verbatim>\<open>chunks_sent \<ge> 1\<close>, the cache entry
  stays as it is under every message that is not a start or a stop for that event.
\<close>

lemma audio_keeps_header_held:
  assumes "header_held e h s"
  shows "header_held e h (fst (snd (handle_stream_audio now c data s)))"
proof (cases "map_option py_str (data ''event_id'') = Some e")
  case True
  with assms show ?thesis
    by (auto simp add: header_held_def handle_stream_audio_def audio_caught_def Let_def
        set_stats_def split: option.splits sum.splits)
next
  case False
  with assms show ?thesis
    by (auto simp add: header_held_def handle_stream_audio_def audio_caught_def Let_def
        set_stats_def split: option.splits sum.splits)
qed

lemma pcm_keeps_header_held:
  assumes "header_held e h s"
  shows "header_held e h (fst (snd (handle_stream_audio_pcm c data s)))"
  using assms
  by (auto simp add: header_held_def handle_stream_audio_pcm_def Let_def set_stats_def
      split: option.splits)

lemma start_keeps_header_held:
  assumes "header_held e h s" and "map_option py_str (data ''event_id'') \<noteq> Some e"
  shows "header_held e h (fst (snd (handle_start_stream c data s)))"
  using assms
  by (auto simp add: header_held_def handle_start_stream_def Let_def del_header_eq
      split: option.splits)

lemma stop_keeps_header_held:
  assumes "header_held e h s" and "map_option py_str (data ''event_id'') \<noteq> Some e"
  shows "header_held e h (fst (snd (handle_stop_stream now c data s)))"
  using assms
  by (auto simp add: header_held_def handle_stop_stream_def Let_def del_header_eq
      split: option.splits)

lemma dispatch_keeps_header_held:
  assumes "header_held e h s" and "\<not> is_start_or_stop_for e m"
  shows "header_held e h (fst (snd (dispatch m s)))"
proof -
  obtain now c v data where m: "m = (now, c, v, data)" by (cases m) auto
  show ?thesis
  proof (cases v)
    case stream_audio
    with m assms show ?thesis by (simp add: audio_keeps_header_held)
  next
    case stream_audio_pcm
    with m assms show ?thesis by (simp add: pcm_keeps_header_held)
  next
    case start_stream
    with m assms show ?thesis
      by (simp add: is_start_or_stop_for_def start_keeps_header_held)
  next
    case stop_stream
    with m assms show ?thesis
      by (simp add: is_start_or_stop_for_def stop_keeps_header_held)
  qed (use m assms in \<open>auto simp add: header_held_def on_join_def on_leave_def
        handle_stream_frame_def handle_reaction_def join_room_def leave_room_def Let_def
        split: option.splits\<close>)
qed

lemma run_keeps_header_held:
  assumes "header_held e h s" and "\<forall>m \<in> set ms. \<not> is_start_or_stop_for e m"
  shows "header_held e h (run s ms)"
  using assms
  by (induction ms arbitrary: s) (simp_all add: dispatch_keeps_header_held)

lemma first_chunk_header_held:
  assumes "data ''event_id'' = Some ev" and "data ''audio'' = Some (PStr a)" and "a \<noteq> []"
    and "audio_stats s (py_str ev) = None"
  shows "header_held (py_str ev)
           [''audio'' \<mapsto> PStr (normalized (dict_get data ''mimeType'' (PStr ''audio/webm'')) a),
            ''mimeType'' \<mapsto> dict_get data ''mimeType'' (PStr ''audio/webm''),
            ''timestamp'' \<mapsto> dict_get data ''timestamp'' (PInt now),
            ''event_id'' \<mapsto> PStr (py_str ev), ''is_header'' \<mapsto> PBool True]
           (fst (snd (handle_stream_audio now c data s)))"
  using assms
  by (auto simp add: header_held_def handle_stream_audio_def Let_def dict_get_def new_stats_def
      set_stats_def audio_payload_def normalized_def)

text \<open>
  A late joiner: after the first chunk of an event without counters and any later traffic
  without a start or stop for the event, a joining connection is sent that first chunk,
  normalised, as header.
\<close>

lemma late_joiner_gets_first_chunk:
  assumes "data ''event_id'' = Some ev" and "data ''audio'' = Some (PStr a)" and "a \<noteq> []"
    and "audio_stats s (py_str ev) = None"
    and "\<forall>m \<in> set ms. \<not> is_start_or_stop_for (py_str ev) m"
    and "jdata ''event_id'' = Some ev'" and "py_str ev' = py_str ev"
  shows "emits (snd (snd (on_join j jdata
                 (run (fst (snd (handle_stream_audio now c data s))) ms)))) =
           [Emit ''new_audio''
              [''audio'' \<mapsto> PStr (normalized (dict_get data ''mimeType'' (PStr ''audio/webm'')) a),
               ''mimeType'' \<mapsto> dict_get data ''mimeType'' (PStr ''audio/webm''),
               ''timestamp'' \<mapsto> dict_get data ''timestamp'' (PInt now),
               ''event_id'' \<mapsto> PStr (py_str ev), ''is_header'' \<mapsto> PBool True]
              (Sid j) True]"
proof -
  let ?h = "[''audio'' \<mapsto> PStr (normalized (dict_get data ''mimeType'' (PStr ''audio/webm'')) a),
            ''mimeType'' \<mapsto> dict_get data ''mimeType'' (PStr ''audio/webm''),
            ''timestamp'' \<mapsto> dict_get data ''timestamp'' (PInt now),
            ''event_id'' \<mapsto> PStr (py_str ev), ''is_header'' \<mapsto> PBool True]"
  let ?s = "run (fst (snd (handle_stream_audio now c data s))) ms"
  have "header_held (py_str ev) ?h (fst (snd (handle_stream_audio now c data s)))"
    using assms(1-4) by (rule first_chunk_header_held)
  then have "header_held (py_str ev) ?h ?s"
    using assms(5) by (rule run_keeps_header_held)
  then have "audio_headers ?s (py_str ev') = Some ?h"
    using assms(7) by (simp add: header_held_def)
  then show ?thesis
    using assms(6) by (simp add: on_join_def Let_def join_room_def emits_def)
qed

end
